theory Spec2Isabelle
  imports Complex_Main "HOL-Library.AList" "HOL-Library.Sublist"
begin

section \<open>Errors and numbers\<close>

text \<open>
  Every exception the code can raise is a value. \<open>CollaboratorError\<close> stands for an
  exception raised inside a collaborator (the model's prediction function or its scorer),
  \<open>PoolFailure\<close> for a failure of the worker pool itself, and \<open>ShapeMismatch\<close> for an
  elementwise numpy operation on arrays of different shapes (numpy raises \<open>ValueError\<close>
  unless the shapes broadcast; shapes that differ are outside this development). The
  message of the unrecognised method is the code's; the other messages are shortened.
\<close>

datatype error =
    AssertionError string
  | FeatureImportanceError string
  | KeyError string
  | ValueError string
  | OSError string
  | ShapeMismatch
  | PoolFailure
  | CollaboratorError string

text \<open>
  A numpy float: a finite value (idealised as a real, so rounding and overflow are not
  modelled), an infinity, or NaN. Data, predictions and scores are finite reals; the
  special values arise only where the code itself divides.
\<close>

datatype npfloat = Fin real | PInf | NInf | NaN

fun np_add :: "npfloat \<Rightarrow> npfloat \<Rightarrow> npfloat" where
  "np_add (Fin a) (Fin b) = Fin (a + b)"
| "np_add NaN y = NaN"
| "np_add x NaN = NaN"
| "np_add PInf NInf = NaN"
| "np_add NInf PInf = NaN"
| "np_add PInf y = PInf"
| "np_add x PInf = PInf"
| "np_add NInf y = NInf"
| "np_add x NInf = NInf"

fun np_mul :: "npfloat \<Rightarrow> npfloat \<Rightarrow> npfloat" where
  "np_mul (Fin a) (Fin b) = Fin (a * b)"
| "np_mul NaN y = NaN"
| "np_mul x NaN = NaN"
| "np_mul (Fin a) PInf = (if a = 0 then NaN else if 0 < a then PInf else NInf)"
| "np_mul (Fin a) NInf = (if a = 0 then NaN else if 0 < a then NInf else PInf)"
| "np_mul PInf (Fin b) = (if b = 0 then NaN else if 0 < b then PInf else NInf)"
| "np_mul NInf (Fin b) = (if b = 0 then NaN else if 0 < b then NInf else PInf)"
| "np_mul PInf PInf = PInf"
| "np_mul PInf NInf = NInf"
| "np_mul NInf PInf = NInf"
| "np_mul NInf NInf = PInf"

text \<open>
  True division of numpy: a division by zero does not raise, it gives an infinity, or NaN
  for \<open>0 / 0\<close>. (The sign of a zero is not modelled; the only zero divisor of the code
  is \<open>max - min\<close> of a constant column, which is \<open>+0\<close>.)
\<close>

fun np_div :: "npfloat \<Rightarrow> npfloat \<Rightarrow> npfloat" where
  "np_div (Fin a) (Fin b) =
     (if b = 0 then (if a = 0 then NaN else if 0 < a then PInf else NInf) else Fin (a / b))"
| "np_div NaN y = NaN"
| "np_div x NaN = NaN"
| "np_div (Fin a) PInf = Fin 0"
| "np_div (Fin a) NInf = Fin 0"
| "np_div PInf (Fin b) = (if 0 \<le> b then PInf else NInf)"
| "np_div NInf (Fin b) = (if 0 \<le> b then NInf else PInf)"
| "np_div PInf PInf = NaN"
| "np_div PInf NInf = NaN"
| "np_div NInf PInf = NaN"
| "np_div NInf NInf = NaN"

text \<open>\<open>x > y\<close> and \<open>x == y\<close>: every comparison with NaN is false.\<close>

fun np_gt :: "npfloat \<Rightarrow> npfloat \<Rightarrow> bool" where
  "np_gt (Fin a) (Fin b) = (b < a)"
| "np_gt NaN y = False"
| "np_gt x NaN = False"
| "np_gt PInf PInf = False"
| "np_gt PInf y = True"
| "np_gt x PInf = False"
| "np_gt NInf y = False"
| "np_gt x NInf = True"

fun np_eq :: "npfloat \<Rightarrow> npfloat \<Rightarrow> bool" where
  "np_eq (Fin a) (Fin b) = (a = b)"
| "np_eq PInf PInf = True"
| "np_eq NInf NInf = True"
| "np_eq x y = False"



definition np_sum :: "npfloat list \<Rightarrow> npfloat" where
  "np_sum xs = foldl np_add (Fin 0) xs"

text \<open>\<open>np.mean\<close>: the sum over the count; the mean of an empty array is NaN.\<close>

definition np_mean :: "npfloat list \<Rightarrow> npfloat" where
  "np_mean xs = np_div (np_sum xs) (Fin (real (length xs)))"

text \<open>
  Python's builtin \<open>max\<close> and \<open>min\<close> over the elements of a one-dimensional array: the
  first largest (smallest) element, and \<open>ValueError\<close> on an empty one.
\<close>

definition py_max :: "real list \<Rightarrow> error + real" where
  "py_max xs = (case xs of
      [] \<Rightarrow> Inl (ValueError ''max() arg is an empty sequence'')
    | x # rest \<Rightarrow> Inr (foldl (\<lambda>m y. if m < y then y else m) x rest))"

definition py_min :: "real list \<Rightarrow> error + real" where
  "py_min xs = (case xs of
      [] \<Rightarrow> Inl (ValueError ''min() arg is an empty sequence'')
    | x # rest \<Rightarrow> Inr (foldl (\<lambda>m y. if y < m then y else m) x rest))"

section \<open>Predictions\<close>

text \<open>
  A prediction array is one-dimensional (one number per row) or two-dimensional (one
  vector per row, for instance class probabilities).
\<close>

datatype ndarray = Vec "real list" | Mat "real list list"

text \<open>\<open>abs(new_predictions - original_predictions)\<close>, elementwise.\<close>

fun abs_difference :: "ndarray \<Rightarrow> ndarray \<Rightarrow> error + ndarray" where
  "abs_difference (Vec a) (Vec b) =
     (if length a = length b then Inr (Vec (map2 (\<lambda>x y. \<bar>x - y\<bar>) a b))
      else Inl ShapeMismatch)"
| "abs_difference (Mat a) (Mat b) =
     (if map length a = map length b
      then Inr (Mat (map2 (\<lambda>r s. map2 (\<lambda>x y. \<bar>x - y\<bar>) r s) a b))
      else Inl ShapeMismatch)"
| "abs_difference x y = Inl ShapeMismatch"

section \<open>The scale estimator\<close>

text \<open>
  \<open>importance_scaler\<close>: \<open>perturbed_x\<close> is reshaped to the shape of \<open>original_x\<close> (which
  fails when the sizes differ), the scales are computed by one elementwise division, and
  \<open>sum(scales == 0)\<close>, the number of rows whose scale is zero, decides the fallback.
\<close>

definition importance_scaler :: "real list \<Rightarrow> real list \<Rightarrow> error + npfloat list" where
  "importance_scaler original_x perturbed_x =
     (if length perturbed_x \<noteq> length original_x
      then Inl (ValueError ''cannot reshape array'')
      else case py_max original_x of
        Inl e \<Rightarrow> Inl e
      | Inr mx \<Rightarrow> (case py_min original_x of
          Inl e \<Rightarrow> Inl e
        | Inr mn \<Rightarrow>
            let scales = map2 (\<lambda>p x. np_div (Fin \<bar>p - x\<bar>) (Fin (mx - mn)))
                           perturbed_x original_x
            in if length (filter (\<lambda>s. np_eq s (Fin 0)) scales) \<noteq> 0
               then Inr (replicate (length perturbed_x) (Fin 1))
               else Inr scales))"

section \<open>The importance estimator\<close>

text \<open>\<open>if len(shape) == 1: changes_in_predictions[:, np.newaxis]\<close>: a one-dimensional
  array becomes a column, one entry per row.\<close>

definition as_rows :: "ndarray \<Rightarrow> real list list" where
  "as_rows changes = (case changes of Vec v \<Rightarrow> map (\<lambda>x. [x]) v | Mat m \<Rightarrow> m)"

definition compute_importance_via_output_variance ::
  "ndarray \<Rightarrow> ndarray \<Rightarrow> real list \<Rightarrow> real list \<Rightarrow> bool \<Rightarrow> error + npfloat" where
  "compute_importance_via_output_variance new_predictions original_predictions
       original_x perturbed_x scaled =
     (case abs_difference new_predictions original_predictions of
        Inl e \<Rightarrow> Inl e
      | Inr changes_in_predictions \<Rightarrow>
          let rows = as_rows changes_in_predictions
          in if scaled
             then (case importance_scaler original_x perturbed_x of
                     Inl e \<Rightarrow> Inl e
                   | Inr scales \<Rightarrow>
                       if length scales \<noteq> length rows then Inl ShapeMismatch
                       else Inr (np_mean
                                  (map2 (\<lambda>r s. np_mul (Fin (sum_list r)) s) rows scales)))
             else Inr (np_div (Fin (sum_list (concat rows)))
                              (Fin (real (length (concat rows))))))"

datatype scorer_types = increasing | decreasing

text \<open>
  The scorer collaborator: a callable \<open>(labels, predictions, sample_weight)\<close> giving a
  number, with its \<open>type\<close> attribute.
\<close>

record scorer =
  score :: "real list option \<Rightarrow> ndarray \<Rightarrow> npfloat list option \<Rightarrow> error + real"
  scorer_type :: scorer_types

definition compute_importance_via_conditional_permutation ::
  "ndarray \<Rightarrow> ndarray \<Rightarrow> real list option \<Rightarrow> real list \<Rightarrow> real list \<Rightarrow> scorer \<Rightarrow> bool
     \<Rightarrow> error + npfloat" where
  "compute_importance_via_conditional_permutation new_predictions original_predictions
       training_labels original_x perturbed_x scorer scaled =
     (case (if scaled
            then (case importance_scaler original_x perturbed_x of
                    Inl e \<Rightarrow> Inl e
                  | Inr scales \<Rightarrow> Inr (Some scales))
            else Inr None) of
        Inl e \<Rightarrow> Inl e
      | Inr sample_weight \<Rightarrow>
          (case score scorer training_labels new_predictions sample_weight of
             Inl e \<Rightarrow> Inl e
           | Inr score1 \<Rightarrow>
               (case score scorer training_labels original_predictions sample_weight of
                  Inl e \<Rightarrow> Inl e
                | Inr score2 \<Rightarrow>
                    let multiple = (if scorer_type scorer = increasing then 1 else - 1)
                    in Inr (Fin \<bar>max ((score2 - score1) * multiple) 0\<bar>))))"

definition compute_importance ::
  "ndarray \<Rightarrow> ndarray \<Rightarrow> real list \<Rightarrow> real list \<Rightarrow> real list option \<Rightarrow> string \<Rightarrow> bool
     \<Rightarrow> scorer \<Rightarrow> error + npfloat" where
  "compute_importance new_predictions original_predictions original_x perturbed_x
       training_labels method scaled scorer =
     (if method = ''output-variance''
      then compute_importance_via_output_variance new_predictions original_predictions
             original_x perturbed_x scaled
      else if method = ''conditional-permutation''
      then compute_importance_via_conditional_permutation new_predictions
             original_predictions training_labels original_x perturbed_x scorer scaled
      else Inl (KeyError (''Unrecongized method for computing feature_importance: '' @ method)))"

section \<open>The dataset collaborator\<close>

text \<open>
  A dataset is a table of named columns, all of one length (the row count). Feature
  ids are the column names, in column order.
\<close>

type_synonym feature_id = string

type_synonym dataset = "(feature_id \<times> real list) list"

definition n_rows :: "dataset \<Rightarrow> nat" where
  "n_rows ds = (case ds of [] \<Rightarrow> 0 | (k, c) # rest \<Rightarrow> length c)"

definition feature_ids :: "dataset \<Rightarrow> feature_id list" where
  "feature_ids ds = map fst ds"

text \<open>\<open>DataManager(input_data.copy(), feature_names=feature_names)\<close>: the columns, renamed.\<close>

definition DataManager :: "dataset \<Rightarrow> feature_id list \<Rightarrow> dataset" where
  "DataManager input_data feature_names = zip feature_names (map snd input_data)"

text \<open>The \<open>.values\<close> of a dataset: the two-dimensional array of its rows.\<close>

definition values_of :: "dataset \<Rightarrow> real list list" where
  "values_of ds = transpose (map snd ds)"

datatype sampling_strategy = random_choice | uniform_over_similarity_ranks

text \<open>
  The perturbation sampler \<open>generate_column_sample(feature_id, n_samples, strategy)\<close> of
  the dataset collaborator is not among the sources and draws at random. It is a
  parameter here: a function of the strategy, the feature, the dataset and the count,
  which fixes the random draw.
\<close>

type_synonym column_sampler =
  "sampling_strategy \<Rightarrow> feature_id \<Rightarrow> dataset \<Rightarrow> nat \<Rightarrow> error + real list"


text \<open>
  Modelled from the spec: the row sampler \<open>generate_sample\<close> of the dataset collaborator
  (skater.data is not among the sources). The spec has it "draw a uniform random
  subsample of exactly this size without replacement". The random source is the
  parameter \<open>rnd\<close>: the \<open>k\<close>-th draw takes the row at position \<open>rnd k\<close> (modulo the number
  of rows left) out of the rows not drawn yet.
\<close>

fun draw_without_replacement :: "(nat \<Rightarrow> nat) \<Rightarrow> nat \<Rightarrow> 'a list \<Rightarrow> 'a list" where
  "draw_without_replacement rnd 0 xs = []"
| "draw_without_replacement rnd (Suc k) xs =
     (if xs = [] then []
      else let i = rnd k mod length xs
           in xs ! i # draw_without_replacement rnd k (take i xs @ drop (Suc i) xs))"

definition sample_indices :: "(nat \<Rightarrow> nat) \<Rightarrow> nat \<Rightarrow> nat \<Rightarrow> nat list" where
  "sample_indices rnd n_samples n = draw_without_replacement rnd n_samples [0..<n]"

definition generate_sample :: "(nat \<Rightarrow> nat) \<Rightarrow> dataset \<Rightarrow> nat \<Rightarrow> dataset" where
  "generate_sample rnd ds n_samples =
     map (\<lambda>(k, c). (k, map (\<lambda>i. c ! i) (sample_indices rnd n_samples (n_rows ds)))) ds"

section \<open>The per-feature task\<close>

text \<open>
  \<open>compute_feature_importance\<close>. The sampler, ambient in the code (a method of the
  working copy drawing from the global random state), is the first argument. The
  assignment of the samples to the column fails when their count is not the row count.
  Reading a column of the working copy gives its values at that moment, so
  \<open>original_values\<close> are the values before the column is overwritten, as the spec has
  it (the dataset collaborator is not among the sources).
\<close>

definition compute_feature_importance ::
  "column_sampler \<Rightarrow> feature_id \<Rightarrow> dataset \<Rightarrow> (real list list \<Rightarrow> error + ndarray) \<Rightarrow> ndarray
     \<Rightarrow> (feature_id \<times> bool) list \<Rightarrow> feature_id list \<Rightarrow> real list option \<Rightarrow> string \<Rightarrow> bool
     \<Rightarrow> scorer \<Rightarrow> error + (feature_id \<times> npfloat) list" where
  "compute_feature_importance sampler feature_id input_data estimator_fn
       original_predictions feature_info feature_names training_labels method scaled scorer =
     (let copy_of_data_set = DataManager input_data feature_names;
          n = n_rows copy_of_data_set
      in case map_of copy_of_data_set feature_id of
           None \<Rightarrow> Inl (KeyError feature_id)
         | Some original_values \<Rightarrow>
             (case map_of feature_info feature_id of
                None \<Rightarrow> Inl (KeyError feature_id)
              | Some numeric \<Rightarrow>
                  (case (if numeric
                         then sampler uniform_over_similarity_ranks feature_id
                                copy_of_data_set n
                         else sampler random_choice feature_id copy_of_data_set n) of
                     Inl e \<Rightarrow> Inl e
                   | Inr samples \<Rightarrow>
                       if length samples \<noteq> n
                       then Inl (ValueError ''Length of values does not match length of index'')
                       else (case estimator_fn
                                    (values_of (AList.update feature_id samples
                                                  copy_of_data_set)) of
                               Inl e \<Rightarrow> Inl e
                             | Inr new_predictions \<Rightarrow>
                                 (case compute_importance new_predictions
                                         original_predictions original_values samples
                                         training_labels method scaled scorer of
                                    Inl e \<Rightarrow> Inl e
                                  | Inr importance \<Rightarrow> Inr [(feature_id, importance)])))))"

section \<open>The orchestrator\<close>

text \<open>The model collaborator: \<open>predict\<close>, the static predictor handed to the tasks, the
  target names and the default scorer.\<close>

record model =
  predict :: "dataset \<Rightarrow> error + ndarray"
  static_predictor :: "real list list \<Rightarrow> error + ndarray"
  target_names :: "string list"
  default_scorer :: scorer

text \<open>The dataset held by the interpretation: its data, the feature metadata
  (\<open>feature_info[feature_id]['numeric']\<close>) and the random source of its row sampler.\<close>

record data_manager =
  data :: dataset
  feature_info :: "(feature_id \<times> bool) list"
  row_rnd :: "nat \<Rightarrow> nat"

record interp =
  training_labels :: "real list option"
  data_set :: data_manager

text \<open>
  What the call does besides computing, in order: calls of the collaborators, log
  lines, the use of the worker pool and the tasks run in the calling process. (Ticks of
  the progress bar are not recorded.)
\<close>

datatype event =
    GenerateSample nat
  | Predict
  | PoolCreate "int option"
  | LogWarn string
  | LogDebug string
  | PoolMap
  | TaskInProcess feature_id
  | PoolClose
  | PoolJoin
  | PoolTerminate

text \<open>
  The worker pool of the standard library. \<open>Pool(processes)\<close> raises \<open>ValueError\<close> for a
  process count below one; \<open>None\<close> asks for as many workers as there are processors. The
  environment decides the rest: whether the creation fails for a reason of its own, and
  whether the pool breaks while it delivers the result of a given position.
\<close>

record pool_env =
  pool_create_error :: "error option"
  pool_fails_at :: "nat option"

definition Pool :: "pool_env \<Rightarrow> int option \<Rightarrow> error option" where
  "Pool env processes =
     (case processes of
        None \<Rightarrow> pool_create_error env
      | Some k \<Rightarrow> if k < 1 then Some (ValueError ''Number of processes must be at least 1'')
                  else pool_create_error env)"

text \<open>
  The loop over \<open>executor_instance.imap(fi_func, arg_list)\<close>: the results arrive in
  order and are appended one by one, until the pool breaks or a task's exception is
  raised again in the caller. It returns what was appended and the exception, if any.
\<close>

fun pool_imap ::
  "(feature_id \<Rightarrow> error + 'd) \<Rightarrow> nat option \<Rightarrow> nat \<Rightarrow> feature_id list \<Rightarrow> 'd list
     \<Rightarrow> 'd list \<times> error option" where
  "pool_imap f brk i [] acc = (acc, None)"
| "pool_imap f brk i (k # ks) acc =
     (if brk = Some i then (acc, Some PoolFailure)
      else case f k of
             Inl e \<Rightarrow> (acc, Some e)
           | Inr d \<Rightarrow> pool_imap f brk (Suc i) ks (acc @ [d]))"

text \<open>With \<open>executor_instance.map\<close> the results arrive all at once or not at all.\<close>

definition pool_attempt ::
  "pool_env \<Rightarrow> bool \<Rightarrow> (feature_id \<Rightarrow> error + 'd) \<Rightarrow> feature_id list \<Rightarrow> 'd list \<times> error option" where
  "pool_attempt env progressbar f arg_list =
     (case pool_imap f (pool_fails_at env) 0 arg_list [] of
        (ds, None) \<Rightarrow> (ds, None)
      | (ds, Some e) \<Rightarrow> (if progressbar then ds else [], Some e))"

text \<open>The loop over the builtin \<open>map(fi_func, arg_list)\<close>, in the calling process.\<close>

fun sequential_loop ::
  "(feature_id \<Rightarrow> error + 'd) \<Rightarrow> feature_id list \<Rightarrow> 'd list \<Rightarrow> event list \<times> (error + 'd list)" where
  "sequential_loop f [] acc = ([], Inr acc)"
| "sequential_loop f (k # ks) acc =
     (case f k of
        Inl e \<Rightarrow> ([TaskInProcess k], Inl e)
      | Inr d \<Rightarrow> (case sequential_loop f ks (acc @ [d]) of
                   (evs, r) \<Rightarrow> (TaskInProcess k # evs, r)))"

text \<open>
  The \<open>try / except / finally\<close> block. Whatever the pool delivered before an exception
  is dropped (\<open>importance_dicts = []\<close>) and every task is run again in the calling
  process.
\<close>

definition run_tasks ::
  "pool_env \<Rightarrow> int option \<Rightarrow> bool \<Rightarrow> (feature_id \<Rightarrow> error + 'd) \<Rightarrow> feature_id list
     \<Rightarrow> event list \<times> (error + 'd list)" where
  "run_tasks env n_jobs progressbar fi_func arg_list =
     (case (if n_jobs = Some 1
            then ([], ([], Some (ValueError ''Skipping to single processing'')))
            else ([PoolMap], pool_attempt env progressbar fi_func arg_list)) of
        (evs_try, (importance_dicts, raised)) \<Rightarrow>
          (case (case raised of
                   None \<Rightarrow> ([], Inr importance_dicts)
                 | Some e \<Rightarrow>
                     (case sequential_loop fi_func arg_list [] of
                        (evs, r) \<Rightarrow>
                          (LogWarn ''Multiprocessing failed, going single process'' # evs, r))) of
             (evs_except, r) \<Rightarrow>
               (evs_try @ evs_except @ [PoolClose, PoolJoin, PoolTerminate], r)))"

text \<open>\<open>importances.update(i)\<close> for every delivered dict, in order.\<close>

definition merge_importances ::
  "(feature_id \<times> npfloat) list list \<Rightarrow> (feature_id \<times> npfloat) list" where
  "merge_importances importance_dicts =
     foldl (\<lambda>importances i. fold (\<lambda>(k, v). AList.update k v) i importances) []
       importance_dicts"

text \<open>
  \<open>pd.Series(importances).sort_values(ascending=ascending)\<close>: by value, NaN last in
  either direction. (Equal values are kept in the order of the dict here; pandas leaves
  that order to its sorting routine.)
\<close>

definition sorts_before :: "bool \<Rightarrow> npfloat \<Rightarrow> npfloat \<Rightarrow> bool" where
  "sorts_before ascending a b =
     (if b = NaN then True
      else if a = NaN then False
      else if ascending then \<not> np_gt a b
      else \<not> np_gt b a)"

fun insert_by_value ::
  "bool \<Rightarrow> feature_id \<times> npfloat \<Rightarrow> (feature_id \<times> npfloat) list \<Rightarrow> (feature_id \<times> npfloat) list" where
  "insert_by_value ascending x [] = [x]"
| "insert_by_value ascending x (y # ys) =
     (if sorts_before ascending (snd x) (snd y) then x # y # ys
      else y # insert_by_value ascending x ys)"

definition sort_values ::
  "bool \<Rightarrow> (feature_id \<times> npfloat) list \<Rightarrow> (feature_id \<times> npfloat) list" where
  "sort_values ascending series = foldr (insert_by_value ascending) series []"

text \<open>\<open>Series.sum()\<close> of pandas skips NaN entries.\<close>

definition series_sum :: "(feature_id \<times> npfloat) list \<Rightarrow> npfloat" where
  "series_sum series = np_sum (filter (\<lambda>v. v \<noteq> NaN) (map snd series))"

text \<open>
  Modelled from the spec: \<open>divide_zerosafe\<close> (skater.util.dataops is not among the
  sources). The spec has the normalisation "division-by-zero-safe: any position where
  both numerator and denominator are zero yields zero rather than NaN". The helper is
  taken to be safe at every position: where the elementwise division has no finite
  quotient (the \<open>0 / 0\<close> of the spec's sentence, and any other NaN or infinity), the
  position is zero; everywhere else it is the quotient.
\<close>

definition divide_zerosafe :: "npfloat list \<Rightarrow> npfloat list \<Rightarrow> npfloat list" where
  "divide_zerosafe a b =
     map2 (\<lambda>x y. case np_div x y of Fin q \<Rightarrow> Fin q | PInf \<Rightarrow> Fin 0 | NInf \<Rightarrow> Fin 0
                                   | NaN \<Rightarrow> Fin 0) a b"

text \<open>Lines 155 to 171: merge, sort, check the sum, normalise.\<close>

definition normalise_importances ::
  "bool \<Rightarrow> (feature_id \<times> npfloat) list list
     \<Rightarrow> event list \<times> (error + (feature_id \<times> npfloat) list)" where
  "normalise_importances ascending importance_dicts =
     (let importances = sort_values ascending (merge_importances importance_dicts)
      in if \<not> np_gt (series_sum importances) (Fin 0)
         then ([LogDebug ''Importances that caused a bug''],
               Inl (FeatureImportanceError
                      ''Something went wrong. Importances do not sum to a positive value''))
         else ([], Inr (zip (map fst importances)
                          (divide_zerosafe (map snd importances)
                             (replicate (length importances) (series_sum importances))))))"

text \<open>Lines 83 to 90: \<open>filter_classes\<close>, when given and not empty, is checked against the
  model's target names, and read nowhere else.\<close>

definition filter_classes_ok :: "model \<Rightarrow> string list option \<Rightarrow> bool" where
  "filter_classes_ok model_instance filter_classes =
     (case filter_classes of
        None \<Rightarrow> True
      | Some cs \<Rightarrow> cs = [] \<or> list_all (\<lambda>i. i \<in> set (target_names model_instance)) cs)"

text \<open>Lines 101 to 106: the rows every task works on.\<close>

definition select_inputs :: "data_manager \<Rightarrow> nat \<Rightarrow> event list \<times> dataset" where
  "select_inputs ds n_samples =
     (if n_samples \<le> n_rows (data ds)
      then ([GenerateSample n_samples], generate_sample (row_rnd ds) (data ds) n_samples)
      else ([], data ds))"

text \<open>
  \<open>feature_importance\<close> is one function in the code; here it is the composition of three
  steps. Each gives the trace of its events and either the exception that reaches the
  caller or its result. (The parameter \<open>scorer\<close> of the code is never read and is left
  out.)

  Lines 83 to 111: the checks, the baseline rows, the baseline predictions, and the
  creation of the pool. The result is the baseline rows, the baseline predictions, the
  labels and the process count of the pool.
\<close>

definition prepare ::
  "interp \<Rightarrow> pool_env \<Rightarrow> model \<Rightarrow> string list option \<Rightarrow> int \<Rightarrow> nat \<Rightarrow> string
     \<Rightarrow> event list \<times> (error + dataset \<times> ndarray \<times> real list option \<times> int option)" where
  "prepare self env model_instance filter_classes n_jobs n_samples method =
     (if \<not> filter_classes_ok model_instance filter_classes
      then ([], Inl (AssertionError
                       ''members of filter classes must be members of model_instance.classes''))
      else if method = ''conditional-permutation'' \<and> training_labels self = None
      then ([], Inl (FeatureImportanceError
                       ''If interpretation.training_labels are not set, you can only use feature importance methods that do not require ground truth labels''))
      else
        let labels = (if method = ''conditional-permutation'' then training_labels self
                      else None)
        in case select_inputs (data_set self) n_samples of
          (evs_sample, inputs) \<Rightarrow>
            (case predict model_instance inputs of
               Inl e \<Rightarrow> (evs_sample @ [Predict], Inl e)
             | Inr original_predictions \<Rightarrow>
                 let processes = (if n_jobs < 0 then None else Some n_jobs)
                 in (case Pool env processes of
                       Some e \<Rightarrow> (evs_sample @ [Predict], Inl e)
                     | None \<Rightarrow>
                         (evs_sample @ [Predict, PoolCreate processes],
                          Inr (inputs, original_predictions, labels, processes)))))"

text \<open>Lines 123 to 132: the task of one feature, closed over the shared baseline.\<close>

definition fi_func ::
  "interp \<Rightarrow> column_sampler \<Rightarrow> model \<Rightarrow> string \<Rightarrow> bool \<Rightarrow> dataset \<Rightarrow> ndarray
     \<Rightarrow> real list option \<Rightarrow> feature_id \<Rightarrow> error + (feature_id \<times> npfloat) list" where
  "fi_func self sampler model_instance method use_scaling inputs original_predictions labels
       feature_id =
     compute_feature_importance sampler feature_id inputs (static_predictor model_instance)
       original_predictions (feature_info (data_set self))
       (feature_ids (data (data_set self))) labels method use_scaling
       (default_scorer model_instance)"

text \<open>Lines 83 to 153: up to the list of the per-feature results.\<close>

definition collect_importances ::
  "interp \<Rightarrow> column_sampler \<Rightarrow> pool_env \<Rightarrow> model \<Rightarrow> string list option \<Rightarrow> int \<Rightarrow> bool \<Rightarrow> nat
     \<Rightarrow> string \<Rightarrow> bool \<Rightarrow> event list \<times> (error + (feature_id \<times> npfloat) list list)" where
  "collect_importances self sampler env model_instance filter_classes n_jobs progressbar
       n_samples method use_scaling =
     (case prepare self env model_instance filter_classes n_jobs n_samples method of
        (evs, Inl e) \<Rightarrow> (evs, Inl e)
      | (evs, Inr (inputs, original_predictions, labels, processes)) \<Rightarrow>
          (case run_tasks env processes progressbar
                  (fi_func self sampler model_instance method use_scaling inputs
                     original_predictions labels)
                  (feature_ids (data (data_set self))) of
             (evs_run, r) \<Rightarrow>
               (evs @ (if progressbar
                       then [LogWarn ''Progress bars slow down runs by 10-20%'']
                       else [])
                    @ evs_run, r)))"

text \<open>The raw importance mapping: the merged results, before the check and the
  normalisation.\<close>

definition raw_importances ::
  "interp \<Rightarrow> column_sampler \<Rightarrow> pool_env \<Rightarrow> model \<Rightarrow> string list option \<Rightarrow> int \<Rightarrow> bool \<Rightarrow> nat
     \<Rightarrow> string \<Rightarrow> bool \<Rightarrow> error + (feature_id \<times> npfloat) list" where
  "raw_importances self sampler env model_instance filter_classes n_jobs progressbar
       n_samples method use_scaling =
     (case snd (collect_importances self sampler env model_instance filter_classes n_jobs
                  progressbar n_samples method use_scaling) of
        Inl e \<Rightarrow> Inl e
      | Inr importance_dicts \<Rightarrow> Inr (merge_importances importance_dicts))"

definition feature_importance ::
  "interp \<Rightarrow> column_sampler \<Rightarrow> pool_env \<Rightarrow> model \<Rightarrow> bool \<Rightarrow> string list option \<Rightarrow> int \<Rightarrow> bool
     \<Rightarrow> nat \<Rightarrow> string \<Rightarrow> bool \<Rightarrow> event list \<times> (error + (feature_id \<times> npfloat) list)" where
  "feature_importance self sampler env model_instance ascending filter_classes n_jobs
       progressbar n_samples method use_scaling =
     (case collect_importances self sampler env model_instance filter_classes n_jobs
             progressbar n_samples method use_scaling of
        (evs, Inl e) \<Rightarrow> (evs, Inl e)
      | (evs, Inr importance_dicts) \<Rightarrow>
          (case normalise_importances ascending importance_dicts of
             (evs_check, res) \<Rightarrow> (evs @ evs_check, res)))"

section \<open>An example interpretation\<close>

text \<open>
  Two rows, a constant feature \<open>a\<close> and a feature \<open>b\<close>; the model predicts the value of
  \<open>b\<close>; the sampler returns the column in reverse order.
\<close>

definition example_data :: dataset where
  "example_data = [(''a'', [1, 1]), (''b'', [0, 1])]"

definition example_self :: interp where
  "example_self =
     \<lparr>training_labels = None,
      data_set = \<lparr>data = example_data, feature_info = [(''a'', True), (''b'', True)],
                  row_rnd = (\<lambda>k. 0)\<rparr>\<rparr>"

definition example_sampler :: column_sampler where
  "example_sampler strategy feature_id ds n =
     (case map_of ds feature_id of
        None \<Rightarrow> Inl (KeyError feature_id)
      | Some c \<Rightarrow> Inr (rev c))"

text \<open>A scorer: the mean absolute error of one-dimensional predictions, lower is better.\<close>

definition example_scorer :: scorer where
  "example_scorer =
     \<lparr>score = (\<lambda>labels predictions sample_weight.
                  case (labels, predictions) of
                    (Some ls, Vec v) \<Rightarrow>
                      if length ls = length v \<and> v \<noteq> []
                      then Inr (sum_list (map2 (\<lambda>l p. \<bar>l - p\<bar>) ls v) / real (length v))
                      else Inl (ValueError ''inconsistent numbers of samples'')
                  | _ \<Rightarrow> Inl (ValueError ''labels and one-dimensional predictions expected'')),
      scorer_type = decreasing\<rparr>"

definition example_model :: model where
  "example_model =
     \<lparr>predict = (\<lambda>ds. case map_of ds ''b'' of
                        None \<Rightarrow> Inl (CollaboratorError ''no column b'')
                      | Some c \<Rightarrow> Inr (Vec c)),
      static_predictor = (\<lambda>rows. Inr (Vec (map last rows))),
      target_names = [''yes'', ''no''],
      default_scorer = example_scorer\<rparr>"

definition healthy_pool :: pool_env where
  "healthy_pool = \<lparr>pool_create_error = None, pool_fails_at = None\<rparr>"




text \<open>A pool that breaks before it delivers its first result, and an environment in
  which no pool can be created.\<close>

definition broken_pool :: pool_env where
  "broken_pool = \<lparr>pool_create_error = None, pool_fails_at = Some 0\<rparr>"

definition no_pool :: pool_env where
  "no_pool = \<lparr>pool_create_error = Some (OSError ''Cannot allocate memory''),
               pool_fails_at = None\<rparr>"

section \<open>What the specification says, in its own words\<close>

text \<open>
  The output-variance importance as the spec words it: the mean absolute difference
  between the perturbed and the original predictions, over all their entries; and with
  scaling, the differences of a row summed over the extra dimension, times the scale of
  the row, averaged over the rows.
\<close>

fun same_shape :: "ndarray \<Rightarrow> ndarray \<Rightarrow> bool" where
  "same_shape (Vec a) (Vec b) = (length a = length b)"
| "same_shape (Mat a) (Mat b) = (map length a = map length b)"
| "same_shape x y = False"

fun row_change :: "ndarray \<Rightarrow> ndarray \<Rightarrow> nat \<Rightarrow> real" where
  "row_change (Vec a) (Vec b) i = \<bar>a ! i - b ! i\<bar>"
| "row_change (Mat a) (Mat b) i = (\<Sum>j<length (a ! i). \<bar>a ! i ! j - b ! i ! j\<bar>)"
| "row_change x y i = 0"

fun n_prediction_rows :: "ndarray \<Rightarrow> nat" where
  "n_prediction_rows (Vec a) = length a"
| "n_prediction_rows (Mat a) = length a"

fun n_prediction_entries :: "ndarray \<Rightarrow> nat" where
  "n_prediction_entries (Vec a) = length a"
| "n_prediction_entries (Mat a) = (\<Sum>i<length a. length (a ! i))"

definition mean_absolute_difference :: "ndarray \<Rightarrow> ndarray \<Rightarrow> npfloat" where
  "mean_absolute_difference new orig =
     np_div (Fin (\<Sum>i<n_prediction_rows new. row_change new orig i))
            (Fin (real (n_prediction_entries new)))"

definition scaled_mean_change :: "ndarray \<Rightarrow> ndarray \<Rightarrow> npfloat list \<Rightarrow> npfloat" where
  "scaled_mean_change new orig scales =
     np_mean (map (\<lambda>i. np_mul (Fin (row_change new orig i)) (scales ! i))
                [0..<n_prediction_rows new])"

text \<open>The direction of a scorer: \<open>+1\<close> when higher is better, \<open>-1\<close> when lower is.\<close>

fun direction :: "scorer_types \<Rightarrow> real" where
  "direction increasing = 1"
| "direction decreasing = - 1"

text \<open>A message names the two valid methods when both names occur in it.\<close>

definition names_valid_methods :: "string \<Rightarrow> bool" where
  "names_valid_methods msg =
     (sublist ''output-variance'' msg \<and> sublist ''conditional-permutation'' msg)"

text \<open>
  Running the complete task set one task after the other: all the results in order, or
  the error of the first task that fails. The tasks that are started are those up to and
  including that one.
\<close>

definition sequential_results ::
  "(feature_id \<Rightarrow> error + 'd) \<Rightarrow> feature_id list \<Rightarrow> error + 'd list" where
  "sequential_results f ks =
     (case find (\<lambda>k. isl (f k)) ks of
        None \<Rightarrow> Inr (map (\<lambda>k. projr (f k)) ks)
      | Some k \<Rightarrow> Inl (projl (f k)))"

fun tasks_attempted :: "(feature_id \<Rightarrow> error + 'd) \<Rightarrow> feature_id list \<Rightarrow> feature_id list" where
  "tasks_attempted f [] = []"
| "tasks_attempted f (k # ks) = k # (if isl (f k) then [] else tasks_attempted f ks)"

section \<open>Properties\<close>

subsection \<open>The output-variance importance\<close>

lemma sum_list_nth: "sum_list (xs :: real list) = (\<Sum>i<length xs. xs ! i)"
  by (simp add: sum_list_sum_nth atLeast0LessThan)

lemma sum_list_abs_diff:
  "length a = length b \<Longrightarrow>
   sum_list (map2 (\<lambda>x y. \<bar>x - y\<bar>) a b) = (\<Sum>i<length a. \<bar>a ! i - b ! i :: real\<bar>)"
  by (simp add: sum_list_nth)

lemma length_nat_nth: "sum_list (ns :: nat list) = (\<Sum>i<length ns. ns ! i)"
  by (simp add: sum_list_sum_nth atLeast0LessThan)

lemma map_length_nth:
  "map length a = map length b \<Longrightarrow> i < length a \<Longrightarrow> length (b ! i) = length (a ! i)"
  by (metis length_map nth_map)

lemma map_length_len: "map length a = map length b \<Longrightarrow> length b = length a"
  by (metis length_map)

lemma rows_sum:
  assumes "map length a = map length b"
  shows "map sum_list (map2 (\<lambda>r s. map2 (\<lambda>x y. \<bar>x - y :: real\<bar>) r s) a b)
         = map (row_change (Mat a) (Mat b)) [0..<length a]"
proof (rule nth_equalityI)
  show "length (map sum_list (map2 (\<lambda>r s. map2 (\<lambda>x y. \<bar>x - y\<bar>) r s) a b))
        = length (map (row_change (Mat a) (Mat b)) [0..<length a])"
    using map_length_len[OF assms] by simp
next
  fix i assume "i < length (map sum_list (map2 (\<lambda>r s. map2 (\<lambda>x y. \<bar>x - y :: real\<bar>) r s) a b))"
  then have i: "i < length a" "i < length b" by simp_all
  have l: "length (a ! i) = length (b ! i)" using map_length_nth[OF assms i(1)] by simp
  show "map sum_list (map2 (\<lambda>r s. map2 (\<lambda>x y. \<bar>x - y\<bar>) r s) a b) ! i
        = map (row_change (Mat a) (Mat b)) [0..<length a] ! i"
    using i l by (simp add: sum_list_abs_diff)
qed

lemma rows_length:
  assumes "map length a = map length b"
  shows "map length (map2 (\<lambda>r s. map2 (\<lambda>x y. \<bar>x - y :: real\<bar>) r s) a b) = map length a"
proof (rule nth_equalityI)
  show "length (map length (map2 (\<lambda>r s. map2 (\<lambda>x y. \<bar>x - y\<bar>) r s) a b)) = length (map length a)"
    using map_length_len[OF assms] by simp
next
  fix i assume "i < length (map length (map2 (\<lambda>r s. map2 (\<lambda>x y. \<bar>x - y :: real\<bar>) r s) a b))"
  then have i: "i < length a" "i < length b" by simp_all
  then show "map length (map2 (\<lambda>r s. map2 (\<lambda>x y. \<bar>x - y\<bar>) r s) a b) ! i = map length a ! i"
    using map_length_nth[OF assms i(1)] by simp
qed

lemma sum_list_concat_rows: "sum_list (concat xss) = sum_list (map sum_list (xss :: real list list))"
  by (induction xss) simp_all

lemma concat_singletons: "concat (map (\<lambda>x. [x]) xs) = xs"
  by (induction xs) simp_all

lemma output_variance_unscaled:
  "abs_difference new orig = Inr changes \<Longrightarrow>
   compute_importance_via_output_variance new orig ox px False
   = Inr (np_div (Fin (sum_list (concat (as_rows changes))))
                 (Fin (real (length (concat (as_rows changes))))))"
  by (simp add: compute_importance_via_output_variance_def Let_def del: np_div.simps)

lemma output_variance_scaled:
  "abs_difference new orig = Inr changes \<Longrightarrow> importance_scaler ox px = Inr scales \<Longrightarrow>
   length scales = length (as_rows changes) \<Longrightarrow>
   compute_importance_via_output_variance new orig ox px True
   = Inr (np_mean (map2 (\<lambda>r s. np_mul (Fin (sum_list r)) s) (as_rows changes) scales))"
  by (simp add: compute_importance_via_output_variance_def Let_def)

lemma unscaled_vec:
  assumes "length a = length b"
  shows "compute_importance_via_output_variance (Vec a) (Vec b) ox px False
   = Inr (mean_absolute_difference (Vec a) (Vec b))"
proof -
  let ?d = "map2 (\<lambda>x y. \<bar>x - y :: real\<bar>) a b"
  have d: "abs_difference (Vec a) (Vec b) = Inr (Vec ?d)" using assms by simp
  have c: "concat (as_rows (Vec ?d)) = ?d" by (simp only: as_rows_def ndarray.case concat_singletons)
  have s: "sum_list ?d = (\<Sum>i<n_prediction_rows (Vec a). row_change (Vec a) (Vec b) i)"
    using sum_list_abs_diff[OF assms] by simp
  have n: "length ?d = n_prediction_entries (Vec a)" using assms by simp
  show ?thesis
    unfolding output_variance_unscaled[OF d] mean_absolute_difference_def c s n ..
qed

lemma unscaled_mat:
  assumes "map length a = map length b"
  shows "compute_importance_via_output_variance (Mat a) (Mat b) ox px False
   = Inr (mean_absolute_difference (Mat a) (Mat b))"
proof -
  let ?d = "map2 (\<lambda>r s. map2 (\<lambda>x y. \<bar>x - y :: real\<bar>) r s) a b"
  have d: "abs_difference (Mat a) (Mat b) = Inr (Mat ?d)" using assms by simp
  have c: "as_rows (Mat ?d) = ?d" by (simp only: as_rows_def ndarray.case)
  have "sum_list (concat ?d) = sum_list (map sum_list ?d)"
    by (rule sum_list_concat_rows)
  also have "\<dots> = sum_list (map (row_change (Mat a) (Mat b)) [0..<length a])"
    using rows_sum[OF assms] by (simp only:)
  also have "\<dots> = (\<Sum>i<length a. row_change (Mat a) (Mat b) i)"
    by (simp only: interv_sum_list_conv_sum_set_nat set_upt atLeast0LessThan)
  finally have s: "sum_list (concat ?d) = (\<Sum>i<n_prediction_rows (Mat a). row_change (Mat a) (Mat b) i)"
    by (simp only: n_prediction_rows.simps)
  have n: "length (concat ?d) = n_prediction_entries (Mat a)"
    using rows_length[OF assms] by (simp add: length_concat length_nat_nth)
  show ?thesis
    unfolding output_variance_unscaled[OF d] mean_absolute_difference_def c s n ..
qed

lemma scaled_vec:
  assumes "length a = length b" "importance_scaler ox px = Inr scales" "length scales = length a"
  shows "compute_importance_via_output_variance (Vec a) (Vec b) ox px True
   = Inr (scaled_mean_change (Vec a) (Vec b) scales)"
proof -
  let ?d = "map2 (\<lambda>x y. \<bar>x - y :: real\<bar>) a b"
  have d: "abs_difference (Vec a) (Vec b) = Inr (Vec ?d)" using assms by simp
  have l: "length scales = length (as_rows (Vec ?d))" using assms by (simp add: as_rows_def)
  have "map2 (\<lambda>r s. np_mul (Fin (sum_list r)) s) (as_rows (Vec ?d)) scales
        = map (\<lambda>i. np_mul (Fin (row_change (Vec a) (Vec b) i)) (scales ! i))
            [0..<n_prediction_rows (Vec a)]"
    using assms by (intro nth_equalityI) (simp_all add: as_rows_def)
  then show ?thesis
    unfolding output_variance_scaled[OF d assms(2) l] scaled_mean_change_def by (simp only:)
qed

lemma scaled_mat:
  assumes "map length a = map length b" "importance_scaler ox px = Inr scales" "length scales = length a"
  shows "compute_importance_via_output_variance (Mat a) (Mat b) ox px True
   = Inr (scaled_mean_change (Mat a) (Mat b) scales)"
proof -
  let ?d = "map2 (\<lambda>r s. map2 (\<lambda>x y. \<bar>x - y :: real\<bar>) r s) a b"
  have d: "abs_difference (Mat a) (Mat b) = Inr (Mat ?d)" using assms by simp
  have lb: "length b = length a" using map_length_len[OF assms(1)] .
  have l: "length scales = length (as_rows (Mat ?d))" using assms lb by (simp add: as_rows_def)
  have "map2 (\<lambda>r s. np_mul (Fin (sum_list r)) s) (as_rows (Mat ?d)) scales
        = map2 (\<lambda>c s. np_mul (Fin c) s) (map sum_list ?d) scales"
    by (simp add: zip_map1 case_prod_unfold as_rows_def)
  also have "\<dots> = map2 (\<lambda>c s. np_mul (Fin c) s) (map (row_change (Mat a) (Mat b)) [0..<length a]) scales"
    using rows_sum[OF assms(1)] by (simp only:)
  also have "\<dots> = map (\<lambda>i. np_mul (Fin (row_change (Mat a) (Mat b) i)) (scales ! i))
                      [0..<n_prediction_rows (Mat a)]"
    using assms(3) by (intro nth_equalityI) simp_all
  finally show ?thesis
    unfolding output_variance_scaled[OF d assms(2) l] scaled_mean_change_def by (simp only:)
qed

text \<open>
  C2. With the method output-variance and no scaling, the importance is the mean
  absolute difference between the perturbed and the baseline predictions; with scaling,
  the absolute differences of each row are summed over the extra dimension, multiplied
  by the scale factor of the row (as the scale estimator returns it), and averaged.
  Both for predictions of the same shape.
\<close>

theorem output_variance_importance:
  assumes "same_shape new orig"
  shows "compute_importance new orig ox px labels ''output-variance'' False sc
           = Inr (mean_absolute_difference new orig)
         \<and> (\<forall>scales. importance_scaler ox px = Inr scales
                       \<and> length scales = n_prediction_rows new
              \<longrightarrow> compute_importance new orig ox px labels ''output-variance'' True sc
                    = Inr (scaled_mean_change new orig scales))"
  using assms
  by (cases new; cases orig)
     (simp_all add: compute_importance_def unscaled_vec unscaled_mat scaled_vec scaled_mat)

theorem output_variance_importance_witness:
  "same_shape (Mat [[1, 0], [0, 3]]) (Mat [[0, 1], [0, 1]])
   \<and> compute_importance (Mat [[1, 0], [0, 3]]) (Mat [[0, 1], [0, 1]]) [0, 2] [2, 1] None
        ''output-variance'' False example_scorer = Inr (Fin 1)
   \<and> importance_scaler [0, 2] [2, 1] = Inr [Fin 1, Fin (1 / 2)]
   \<and> compute_importance (Mat [[1, 0], [0, 3]]) (Mat [[0, 1], [0, 1]]) [0, 2] [2, 1] None
        ''output-variance'' True example_scorer = Inr (Fin (3 / 2))"
proof -
  have sh: "same_shape (Mat [[1, 0], [0, 3]]) (Mat [[0, 1], [0, 1]])" by simp
  have sc: "importance_scaler [0, 2] [2, 1] = Inr [Fin 1, Fin (1 / 2)]"
    by (simp add: importance_scaler_def py_max_def py_min_def)
  have m: "mean_absolute_difference (Mat [[1, 0], [0, 3]]) (Mat [[0, 1], [0, 1]]) = Fin 1"
    by (simp add: mean_absolute_difference_def eval_nat_numeral lessThan_Suc)
  have s: "scaled_mean_change (Mat [[1, 0], [0, 3]]) (Mat [[0, 1], [0, 1]])
             [Fin 1, Fin (1 / 2)] = Fin (3 / 2)"
    by (simp add: scaled_mean_change_def np_mean_def np_sum_def eval_nat_numeral
        lessThan_Suc upt_rec)
  from output_variance_importance[OF sh, of "[0, 2]" "[2, 1]" None example_scorer]
  show ?thesis using sh sc m s by simp
qed

subsection \<open>The conditional-permutation importance\<close>

text \<open>
  C3. With the method conditional-permutation the importance is
  \<open>max(0, direction * (score_before - score_after))\<close>: \<open>score_before\<close> is the scorer on
  the labels and the baseline predictions, \<open>score_after\<close> on the labels and the
  perturbed predictions, both with the same sample weights (the scales of the scale
  estimator when scaling is on, none otherwise). It is never negative, and it is zero
  when the perturbation did not make the score worse.
\<close>

theorem conditional_permutation_importance:
  assumes "sample_weight = (if scaled then Some scales else None)"
    and "scaled \<Longrightarrow> importance_scaler ox px = Inr scales"
    and "score sc labels orig sample_weight = Inr score_before"
    and "score sc labels new sample_weight = Inr score_after"
  shows "compute_importance new orig ox px labels ''conditional-permutation'' scaled sc
           = Inr (Fin (max 0 (direction (scorer_type sc) * (score_before - score_after))))
         \<and> 0 \<le> max 0 (direction (scorer_type sc) * (score_before - score_after))
         \<and> (direction (scorer_type sc) * (score_before - score_after) \<le> 0
              \<longrightarrow> compute_importance new orig ox px labels ''conditional-permutation''
                      scaled sc = Inr (Fin 0))"
proof -
  have d: "(if scorer_type sc = increasing then 1 else - 1) = direction (scorer_type sc)"
    by (cases "scorer_type sc") simp_all
  have "compute_importance new orig ox px labels ''conditional-permutation'' scaled sc
        = Inr (Fin \<bar>max ((score_before - score_after) * direction (scorer_type sc)) 0\<bar>)"
    using assms
    by (cases scaled)
       (simp_all add: compute_importance_def
          compute_importance_via_conditional_permutation_def d)
  moreover have "\<bar>max ((score_before - score_after) * direction (scorer_type sc)) 0\<bar>
        = max 0 (direction (scorer_type sc) * (score_before - score_after))"
    by (simp add: max_def mult.commute)
  ultimately show ?thesis by (simp add: max_def)
qed

theorem conditional_permutation_importance_witness:
  "importance_scaler [1, 2] [2, 1] = Inr [Fin 1, Fin 1]
   \<and> score example_scorer (Some [1, 2]) (Vec [1, 2]) (Some [Fin 1, Fin 1]) = Inr 0
   \<and> score example_scorer (Some [1, 2]) (Vec [2, 4]) (Some [Fin 1, Fin 1]) = Inr (3 / 2)
   \<and> compute_importance (Vec [2, 4]) (Vec [1, 2]) [1, 2] [2, 1] (Some [1, 2])
        ''conditional-permutation'' True example_scorer = Inr (Fin (3 / 2))"
proof -
  have s: "importance_scaler [1, 2] [2, 1] = Inr [Fin 1, Fin 1]"
    by (simp add: importance_scaler_def py_max_def py_min_def)
  have b: "score example_scorer (Some [1, 2]) (Vec [1, 2]) (Some [Fin 1, Fin 1]) = Inr 0"
    by (simp add: example_scorer_def)
  have a: "score example_scorer (Some [1, 2]) (Vec [2, 4]) (Some [Fin 1, Fin 1]) = Inr (3 / 2)"
    by (simp add: example_scorer_def)
  have t: "scorer_type example_scorer = decreasing" by (simp add: example_scorer_def)
  from conditional_permutation_importance[of "Some [Fin 1, Fin 1]" True "[Fin 1, Fin 1]"
      "[1, 2]" "[2, 1]" example_scorer "Some [1, 2]" "Vec [1, 2]" 0 "Vec [2, 4]" "3 / 2",
      OF _ s b a]
  show ?thesis using s a b t by simp
qed

subsection \<open>The scale estimator\<close>

text \<open>
  What the scale estimator returns, on a column that is not empty and a perturbation of
  its length: the uniform weights exactly when the column is not constant and at least
  one row is left unperturbed, and the quotients otherwise.
\<close>

lemma scale_is_zero:
  "np_eq (np_div (Fin \<bar>p - x\<bar>) (Fin d)) (Fin 0) \<longleftrightarrow> d \<noteq> 0 \<and> p = x"
  by simp

lemma ex_set_nth: "(\<exists>s\<in>set xs. P s) \<longleftrightarrow> (\<exists>i<length xs. P (xs ! i))"
  by (metis in_set_conv_nth)

lemma importance_scaler_fallback:
  assumes "length px = length ox" and "py_max ox = Inr mx" and "py_min ox = Inr mn"
  shows "importance_scaler ox px =
     Inr (if mx \<noteq> mn \<and> (\<exists>i<length ox. px ! i = ox ! i)
          then replicate (length px) (Fin 1)
          else map2 (\<lambda>p x. np_div (Fin \<bar>p - x\<bar>) (Fin (mx - mn))) px ox)"
proof -
  let ?scales = "map2 (\<lambda>p x. np_div (Fin \<bar>p - x\<bar>) (Fin (mx - mn))) px ox"
  have "filter (\<lambda>s. np_eq s (Fin 0)) ?scales \<noteq> [] \<longleftrightarrow> (\<exists>s\<in>set ?scales. np_eq s (Fin 0))"
    by (simp add: filter_empty_conv)
  also have "\<dots> \<longleftrightarrow> (\<exists>i<length ?scales. np_eq (?scales ! i) (Fin 0))"
    by (rule ex_set_nth)
  also have "\<dots> \<longleftrightarrow> (\<exists>i<length ox. np_eq (np_div (Fin \<bar>px ! i - ox ! i\<bar>) (Fin (mx - mn))) (Fin 0))"
  proof -
    have l: "length ?scales = length ox" using assms(1) by simp
    have n: "?scales ! i = np_div (Fin \<bar>px ! i - ox ! i\<bar>) (Fin (mx - mn))" if "i < length ox" for i
      using that assms(1) by (simp del: np_div.simps)
    show ?thesis unfolding l using n by metis
  qed
  also have "\<dots> \<longleftrightarrow> mx \<noteq> mn \<and> (\<exists>i<length ox. px ! i = ox ! i)"
    by (simp only: scale_is_zero) auto
  finally have f: "filter (\<lambda>s. np_eq s (Fin 0)) ?scales \<noteq> []
      \<longleftrightarrow> mx \<noteq> mn \<and> (\<exists>i<length ox. px ! i = ox ! i)" .
  have e: "length (filter (\<lambda>s. np_eq s (Fin 0)) ?scales) \<noteq> 0
      \<longleftrightarrow> filter (\<lambda>s. np_eq s (Fin 0)) ?scales \<noteq> []"
    by (simp only: length_0_conv)
  show ?thesis
  proof (cases "mx \<noteq> mn \<and> (\<exists>i<length ox. px ! i = ox ! i)")
    case True
    with e f have "length (filter (\<lambda>s. np_eq s (Fin 0)) ?scales) \<noteq> 0" by blast
    with True show ?thesis
      unfolding importance_scaler_def Let_def assms(2,3) using assms(1)
      by (simp only: sum.case simp_thms if_False if_True)
  next
    case False
    with e f have "length (filter (\<lambda>s. np_eq s (Fin 0)) ?scales) = 0" by blast
    with False show ?thesis
      unfolding importance_scaler_def Let_def assms(2,3) using assms(1)
      by (simp only: sum.case simp_thms if_False if_True)
  qed
qed

text \<open>
  C7. The claim: the fallback to a uniform weight of 1 is taken if and only if every
  row's scale is zero, so that a constant feature never gives a division-by-zero
  artefact. The code takes the fallback as soon as one row's scale is zero
  (\<open>sum(scales == 0)\<close> counts the zero rows): with the original column \<open>[0, 1]\<close>
  perturbed to \<open>[0, 0]\<close> the scales are \<open>[0, 1]\<close> and the result is \<open>[1, 1]\<close>. And a
  constant column divides \<open>0\<close> by \<open>0\<close>: every scale is NaN, no scale equals zero, and the
  NaN are returned.
\<close>

theorem importance_scaler_falls_back_on_one_zero_row:
  "importance_scaler [0, 1] [0, 0] = Inr [Fin 1, Fin 1]
   \<and> importance_scaler [2, 2] [2, 2] = Inr [NaN, NaN]"
  by (simp add: importance_scaler_def py_max_def py_min_def)

subsection \<open>An unrecognised method\<close>

text \<open>
  C8, as the claim states it: the error for an unrecognised method names the two valid
  methods. It does not: for the method \<open>gini\<close> the message names \<open>gini\<close> and neither
  \<open>output-variance\<close> nor \<open>conditional-permutation\<close>.
\<close>

theorem unrecognised_method_message_counterexample:
  "''gini'' \<noteq> ''output-variance'' \<and> ''gini'' \<noteq> ''conditional-permutation''
   \<and> compute_importance (Vec [1]) (Vec [0]) [0] [1] None ''gini'' False example_scorer
       = Inl (KeyError ''Unrecongized method for computing feature_importance: gini'')
   \<and> \<not> names_valid_methods ''Unrecongized method for computing feature_importance: gini''"
  by code_simp

text \<open>
  C8, amended: every method other than \<open>output-variance\<close> and
  \<open>conditional-permutation\<close> fails with a \<open>KeyError\<close> whose message is
  \<open>Unrecongized method for computing feature_importance: \<close> followed by the method asked
  for, whatever the other arguments.
\<close>

theorem unrecognised_method_fails:
  assumes "method \<noteq> ''output-variance''" and "method \<noteq> ''conditional-permutation''"
  shows "compute_importance new orig ox px labels method scaled sc
         = Inl (KeyError (''Unrecongized method for computing feature_importance: '' @ method))"
  using assms by (simp add: compute_importance_def)

theorem unrecognised_method_fails_witness:
  "''permutation'' \<noteq> ''output-variance'' \<and> ''permutation'' \<noteq> ''conditional-permutation''
   \<and> compute_importance (Vec [1]) (Vec [0]) [0] [1] None ''permutation'' True example_scorer
       = Inl (KeyError
                ''Unrecongized method for computing feature_importance: permutation'')"
  using unrecognised_method_fails[of "''permutation''" "Vec [1]" "Vec [0]" "[0]" "[1]" None
      True example_scorer]
  by simp

subsection \<open>The dispatch of the tasks\<close>

lemma sequential_loop_snd:
  "snd (sequential_loop f ks acc) =
     (case find (\<lambda>k. isl (f k)) ks of
        None \<Rightarrow> Inr (acc @ map (\<lambda>k. projr (f k)) ks)
      | Some k \<Rightarrow> Inl (projl (f k)))"
proof (induction ks arbitrary: acc)
  case Nil
  then show ?case by simp
next
  case (Cons a ks)
  show ?case
  proof (cases "f a")
    case (Inl e)
    then show ?thesis by simp
  next
    case (Inr d)
    with Cons.IH[of "acc @ [d]"] show ?thesis
      by (simp add: case_prod_unfold split: option.splits)
  qed
qed

lemma sequential_loop_fst:
  "fst (sequential_loop f ks acc) = map TaskInProcess (tasks_attempted f ks)"
proof (induction ks arbitrary: acc)
  case Nil
  then show ?case by simp
next
  case (Cons a ks)
  show ?case
  proof (cases "f a")
    case (Inl e)
    then show ?thesis by simp
  next
    case (Inr d)
    with Cons.IH[of "acc @ [d]"] show ?thesis by (simp add: case_prod_unfold)
  qed
qed

lemma sequential_loop_eq:
  "sequential_loop f ks [] = (map TaskInProcess (tasks_attempted f ks), sequential_results f ks)"
  by (simp add: prod_eq_iff sequential_loop_snd sequential_loop_fst sequential_results_def
      split: option.splits)

lemma pool_imap_success:
  "pool_imap f brk i ks acc = (ds, None) \<Longrightarrow>
   find (\<lambda>k. isl (f k)) ks = None \<and> ds = acc @ map (\<lambda>k. projr (f k)) ks"
proof (induction ks arbitrary: i acc)
  case Nil
  then show ?case by simp
next
  case (Cons a ks)
  from Cons.prems have nb: "brk \<noteq> Some i" by (auto split: if_splits)
  show ?case
  proof (cases "f a")
    case (Inl e)
    with Cons.prems nb show ?thesis by simp
  next
    case (Inr d)
    with Cons.prems nb have "pool_imap f brk (Suc i) ks (acc @ [d]) = (ds, None)" by simp
    from Cons.IH[OF this] Inr show ?thesis by simp
  qed
qed

lemma pool_attempt_success:
  "pool_attempt env pb f ks = (ds, None) \<Longrightarrow> sequential_results f ks = Inr ds"
  using pool_imap_success[of f "pool_fails_at env" 0 ks "[]"]
  by (auto simp: pool_attempt_def sequential_results_def split: prod.splits option.splits)

lemma run_tasks_snd: "snd (run_tasks env p pb f ks) = sequential_results f ks"
proof (cases "p = Some 1")
  case True
  then show ?thesis by (simp add: run_tasks_def sequential_loop_eq)
next
  case False
  obtain ds r where a: "pool_attempt env pb f ks = (ds, r)" by (cases "pool_attempt env pb f ks")
  show ?thesis
  proof (cases r)
    case None
    with a False pool_attempt_success[of env pb f ks ds] show ?thesis
      by (simp add: run_tasks_def)
  next
    case (Some e)
    with a False show ?thesis by (simp add: run_tasks_def sequential_loop_eq)
  qed
qed

lemma run_tasks_fallback:
  assumes "p = Some 1 \<or> snd (pool_attempt env pb f ks) \<noteq> None"
  shows "run_tasks env p pb f ks =
     ((if p = Some 1 then [] else [PoolMap])
        @ LogWarn ''Multiprocessing failed, going single process''
        # map TaskInProcess (tasks_attempted f ks) @ [PoolClose, PoolJoin, PoolTerminate],
      sequential_results f ks)"
proof (cases "p = Some 1")
  case True
  then show ?thesis by (simp add: run_tasks_def sequential_loop_eq)
next
  case False
  with assms obtain ds e where "pool_attempt env pb f ks = (ds, Some e)"
    by (cases "pool_attempt env pb f ks") auto
  with False show ?thesis by (simp add: run_tasks_def sequential_loop_eq)
qed


lemma pool_fails_attempt:
  "pool_fails_at env = Some k \<Longrightarrow> k < length ks \<Longrightarrow> snd (pool_attempt env pb f ks) \<noteq> None"
proof -
  have "i \<le> k \<Longrightarrow> k - i < length ks \<Longrightarrow> snd (pool_imap f (Some k) i ks acc) \<noteq> None" for i acc
  proof (induction ks arbitrary: i acc)
    case Nil
    then show ?case by simp
  next
    case (Cons a ks)
    show ?case
    proof (cases "k = i")
      case True
      then show ?thesis by simp
    next
      case False
      with Cons.prems have "Suc i \<le> k" "k - Suc i < length ks" by auto
      from Cons.IH[OF this] False show ?thesis by (auto split: sum.splits)
    qed
  qed
  from this[of 0 "[]"] show "pool_fails_at env = Some k \<Longrightarrow> k < length ks \<Longrightarrow> ?thesis"
    by (auto simp: pool_attempt_def split: prod.splits option.splits)
qed


subsection \<open>The filter classes\<close>

text \<open>
  C10. The result does not depend on \<open>filter_classes\<close>: two values that pass the check
  against the model's target names (\<open>None\<close> and the empty list pass) give the same trace
  and the same outcome, all other arguments and collaborators being the same.
\<close>

theorem filter_classes_independence:
  assumes "filter_classes_ok model_instance fc1" and "filter_classes_ok model_instance fc2"
  shows "feature_importance self sampler env model_instance ascending fc1 n_jobs progressbar
           n_samples method use_scaling
         = feature_importance self sampler env model_instance ascending fc2 n_jobs
             progressbar n_samples method use_scaling"
  using assms by (simp add: feature_importance_def collect_importances_def prepare_def)

theorem filter_classes_independence_witness:
  "filter_classes_ok example_model None \<and> filter_classes_ok example_model (Some [''yes''])
   \<and> feature_importance example_self example_sampler healthy_pool example_model True None
        (- 1) False 5000 ''output-variance'' False
     = feature_importance example_self example_sampler healthy_pool example_model True
         (Some [''yes'']) (- 1) False 5000 ''output-variance'' False"
proof -
  have a: "filter_classes_ok example_model None" by (simp add: filter_classes_ok_def)
  have b: "filter_classes_ok example_model (Some [''yes''])"
    by (simp add: filter_classes_ok_def example_model_def)
  from filter_classes_independence[OF a b] a b show ?thesis by simp
qed

subsection \<open>The steps of a call\<close>

lemma collect_reached:
  assumes "prepare self env m fc n_jobs ns meth = (evs, Inr (inputs, preds, labels, processes))"
  shows "collect_importances self sampler env m fc n_jobs pb ns meth sc =
         (evs @ (if pb then [LogWarn ''Progress bars slow down runs by 10-20%''] else [])
              @ fst (run_tasks env processes pb (fi_func self sampler m meth sc inputs preds labels)
                       (feature_ids (data (data_set self)))),
          sequential_results (fi_func self sampler m meth sc inputs preds labels)
            (feature_ids (data (data_set self))))"
  using assms run_tasks_snd[of env processes pb "fi_func self sampler m meth sc inputs preds labels"
      "feature_ids (data (data_set self))"]
  by (simp add: collect_importances_def case_prod_unfold)

lemma collect_not_reached:
  assumes "prepare self env m fc n_jobs ns meth = (evs, Inl e)"
  shows "collect_importances self sampler env m fc n_jobs pb ns meth sc = (evs, Inl e)"
  using assms by (simp add: collect_importances_def)

lemma prepare_reached:
  assumes "prepare self env m fc n_jobs ns meth = (evs, Inr (inputs, preds, labels, processes))"
  shows "filter_classes_ok m fc"
    and "inputs = snd (select_inputs (data_set self) ns)"
    and "predict m inputs = Inr preds"
    and "labels = (if meth = ''conditional-permutation'' then training_labels self else None)"
    and "processes = (if n_jobs < 0 then None else Some n_jobs)"
    and "Pool env processes = None"
    and "evs = fst (select_inputs (data_set self) ns) @ [Predict, PoolCreate processes]"
  using assms
  by (auto simp: prepare_def Let_def case_prod_unfold split: if_splits sum.splits option.splits)

lemma prepare_outcome_pool:
  assumes "Pool env1 (if j1 < 0 then None else Some j1) = None"
    and "Pool env2 (if j2 < 0 then None else Some j2) = None"
  shows "map_sum id (\<lambda>(i, p, l, q). (i, p, l)) (snd (prepare self env1 m fc j1 ns meth))
       = map_sum id (\<lambda>(i, p, l, q). (i, p, l)) (snd (prepare self env2 m fc j2 ns meth))"
  using assms
  by (cases "j1 < 0"; cases "j2 < 0")
     (simp_all add: prepare_def Let_def case_prod_unfold split: sum.splits)

lemma collect_outcome_pool:
  assumes "Pool env1 (if j1 < 0 then None else Some j1) = None"
    and "Pool env2 (if j2 < 0 then None else Some j2) = None"
  shows "snd (collect_importances self sampler env1 m fc j1 pb1 ns meth sc)
       = snd (collect_importances self sampler env2 m fc j2 pb2 ns meth sc)"
proof -
  obtain e1 r1 where p1: "prepare self env1 m fc j1 ns meth = (e1, r1)" by (cases "prepare self env1 m fc j1 ns meth")
  obtain e2 r2 where p2: "prepare self env2 m fc j2 ns meth = (e2, r2)" by (cases "prepare self env2 m fc j2 ns meth")
  from prepare_outcome_pool[OF assms, of self m fc ns meth] p1 p2
  have eq: "map_sum id (\<lambda>(i, p, l, q). (i, p, l)) r1 = map_sum id (\<lambda>(i, p, l, q). (i, p, l)) r2" by simp
  show ?thesis
  proof (cases r1)
    case (Inl e)
    with eq have "r2 = Inl e" by (cases r2) auto
    with Inl p1 p2 show ?thesis by (simp add: collect_not_reached)
  next
    case (Inr x)
    obtain i p l q where x: "x = (i, p, l, q)" by (cases x)
    from eq Inr x obtain q' where "r2 = Inr (i, p, l, q')" by (cases r2) auto
    with Inr x p1 p2 show ?thesis by (simp add: collect_reached)
  qed
qed

lemma pool_ok:
  "pool_create_error env = None \<Longrightarrow> j < 0 \<or> 1 \<le> j \<Longrightarrow> Pool env (if j < 0 then None else Some j) = None"
  by (auto simp: Pool_def)

lemma select_inputs_events:
  "PoolMap \<notin> set (fst (select_inputs ds ns))" "Predict \<notin> set (fst (select_inputs ds ns))"
  by (simp_all add: select_inputs_def)

lemma normalise_events:
  "PoolMap \<notin> set (fst (normalise_importances asc dicts))"
  "Predict \<notin> set (fst (normalise_importances asc dicts))"
  by (simp_all add: normalise_importances_def Let_def)

lemma feature_importance_reached:
  assumes "prepare self env m fc n_jobs ns meth = (evs, Inr (inputs, preds, labels, processes))"
  shows "fst (feature_importance self sampler env m asc fc n_jobs pb ns meth sc)
         = fst (collect_importances self sampler env m fc n_jobs pb ns meth sc)
           @ (case sequential_results (fi_func self sampler m meth sc inputs preds labels)
                     (feature_ids (data (data_set self))) of
                Inl e \<Rightarrow> []
              | Inr dicts \<Rightarrow> fst (normalise_importances asc dicts))"
  by (simp add: feature_importance_def collect_reached[OF assms] case_prod_unfold
      split: sum.splits)


subsection \<open>Forced sequential execution and the fallback\<close>

text \<open>
  C9. With the model and the sampler deterministic (functions), a call with the worker
  count forced to 1 gives the same raw importance mapping, and the same outcome, as a
  call with parallel dispatch on a pool that breaks while it delivers its results. That
  second call does take the fallback: it logs that multiprocessing failed.
\<close>

theorem forced_sequential_equals_fallback:
  assumes "pool_create_error env1 = None" and "pool_create_error env2 = None"
    and "n_jobs < 0 \<or> 1 < n_jobs"
    and "pool_fails_at env2 = Some k" and "k < length (feature_ids (data (data_set self)))"
  shows "raw_importances self sampler env1 m fc 1 pb ns meth sc
         = raw_importances self sampler env2 m fc n_jobs pb ns meth sc
       \<and> snd (feature_importance self sampler env1 m asc fc 1 pb ns meth sc)
         = snd (feature_importance self sampler env2 m asc fc n_jobs pb ns meth sc)
       \<and> (\<forall>evs x. prepare self env2 m fc n_jobs ns meth = (evs, Inr x)
            \<longrightarrow> LogWarn ''Multiprocessing failed, going single process''
                  \<in> set (fst (collect_importances self sampler env2 m fc n_jobs pb ns meth sc)))"
proof -
  have a: "Pool env1 (if (1::int) < 0 then None else Some 1) = None"
    using assms(1) by (intro pool_ok) simp_all
  have b: "Pool env2 (if n_jobs < 0 then None else Some n_jobs) = None"
    using assms(2,3) by (intro pool_ok) auto
  have eq: "snd (collect_importances self sampler env1 m fc 1 pb ns meth sc)
       = snd (collect_importances self sampler env2 m fc n_jobs pb ns meth sc)"
    by (rule collect_outcome_pool[OF a b])
  have raw: "raw_importances self sampler env1 m fc 1 pb ns meth sc
         = raw_importances self sampler env2 m fc n_jobs pb ns meth sc"
    by (simp add: raw_importances_def eq)
  have fin: "snd (feature_importance self sampler env1 m asc fc 1 pb ns meth sc)
         = snd (feature_importance self sampler env2 m asc fc n_jobs pb ns meth sc)"
    using eq by (simp add: feature_importance_def case_prod_unfold split: sum.splits)
  have warn: "LogWarn ''Multiprocessing failed, going single process''
                  \<in> set (fst (collect_importances self sampler env2 m fc n_jobs pb ns meth sc))"
    if "prepare self env2 m fc n_jobs ns meth = (evs, Inr x)" for evs x
  proof -
    obtain i p l q where x: "x = (i, p, l, q)" by (cases x)
    have f: "snd (pool_attempt env2 pb (fi_func self sampler m meth sc i p l)
                 (feature_ids (data (data_set self)))) \<noteq> None"
      by (rule pool_fails_attempt[OF assms(4,5)])
    show ?thesis
      using that x run_tasks_fallback[OF disjI2[OF f], of q]
      by (simp add: collect_reached)
  qed
  from raw fin warn show ?thesis by blast
qed

theorem forced_sequential_equals_fallback_witness:
  "pool_create_error healthy_pool = None \<and> pool_create_error broken_pool = None
   \<and> pool_fails_at broken_pool = Some 0
   \<and> 0 < length (feature_ids (data (data_set example_self)))
   \<and> raw_importances example_self example_sampler healthy_pool example_model None 1 False 5000
        ''output-variance'' False
     = raw_importances example_self example_sampler broken_pool example_model None (- 1) False
         5000 ''output-variance'' False
   \<and> raw_importances example_self example_sampler broken_pool example_model None (- 1) False
         5000 ''output-variance'' False = Inr [(''a'', Fin 0), (''b'', Fin 1)]"
proof -
  have h1: "pool_create_error healthy_pool = None" by (simp add: healthy_pool_def)
  have h2: "pool_create_error broken_pool = None" by (simp add: broken_pool_def)
  have h3: "pool_fails_at broken_pool = Some 0" by (simp add: broken_pool_def)
  have h4: "0 < length (feature_ids (data (data_set example_self)))"
    by (simp add: example_self_def example_data_def feature_ids_def)
  have v: "raw_importances example_self example_sampler broken_pool example_model None (- 1)
             False 5000 ''output-variance'' False = Inr [(''a'', Fin 0), (''b'', Fin 1)]"
    by code_simp
  from forced_sequential_equals_fallback[OF h1 h2 _ h3 h4, of "- 1" example_sampler example_model None False 5000
      "''output-variance''" False True]
  show ?thesis using h1 h2 h3 h4 v by simp
qed

subsection \<open>Failures of the pool\<close>

text \<open>
  C5, as the claim states it: whenever the creation of the pool fails, the tasks are run
  sequentially and the failure does not reach the caller unless the sequential run fails
  too. The pool is created before the \<open>try\<close> block: when its creation fails (for a
  reason of the environment, or because the worker count is 0), the exception reaches
  the caller and no task is run, although the sequential run succeeds on the same
  arguments.
\<close>

theorem pool_creation_failure_reaches_caller:
  "feature_importance example_self example_sampler no_pool example_model True None (- 1) False
     5000 ''output-variance'' False = ([Predict], Inl (OSError ''Cannot allocate memory''))
   \<and> feature_importance example_self example_sampler healthy_pool example_model True None 0
       False 5000 ''output-variance'' False
     = ([Predict], Inl (ValueError ''Number of processes must be at least 1''))
   \<and> snd (feature_importance example_self example_sampler healthy_pool example_model True None
            1 False 5000 ''output-variance'' False) = Inr [(''a'', Fin 0), (''b'', Fin 1)]"
  by code_simp

text \<open>
  C5, amended: for every call that has created its pool and in which the submission of
  the tasks or their parallel execution fails, what the pool had delivered is dropped
  and the complete task set is run again, one task after the other, in the calling
  process; the failure of the pool does not reach the caller, and when a task of the
  sequential run fails, its error does.
\<close>

theorem pool_failure_falls_back:
  assumes "prepare self env m fc n_jobs ns meth = (evs, Inr (inputs, preds, labels, processes))"
    and "n_jobs \<noteq> 1"
    and "snd (pool_attempt env pb (fi_func self sampler m meth sc inputs preds labels)
                (feature_ids (data (data_set self)))) = Some e"
  shows "collect_importances self sampler env m fc n_jobs pb ns meth sc
         = (evs @ (if pb then [LogWarn ''Progress bars slow down runs by 10-20%''] else [])
              @ [PoolMap, LogWarn ''Multiprocessing failed, going single process'']
              @ map TaskInProcess
                  (tasks_attempted (fi_func self sampler m meth sc inputs preds labels)
                     (feature_ids (data (data_set self))))
              @ [PoolClose, PoolJoin, PoolTerminate],
            sequential_results (fi_func self sampler m meth sc inputs preds labels)
              (feature_ids (data (data_set self))))
       \<and> snd (feature_importance self sampler env m asc fc n_jobs pb ns meth sc)
         = (case sequential_results (fi_func self sampler m meth sc inputs preds labels)
                   (feature_ids (data (data_set self))) of
              Inl e' \<Rightarrow> Inl e'
            | Inr importance_dicts \<Rightarrow> snd (normalise_importances asc importance_dicts))"
proof -
  have p: "processes \<noteq> Some 1" using prepare_reached(5)[OF assms(1)] assms(2) by (auto split: if_splits)
  have f: "snd (pool_attempt env pb (fi_func self sampler m meth sc inputs preds labels)
                (feature_ids (data (data_set self)))) \<noteq> None" using assms(3) by simp
  have c: "collect_importances self sampler env m fc n_jobs pb ns meth sc
         = (evs @ (if pb then [LogWarn ''Progress bars slow down runs by 10-20%''] else [])
              @ [PoolMap, LogWarn ''Multiprocessing failed, going single process'']
              @ map TaskInProcess
                  (tasks_attempted (fi_func self sampler m meth sc inputs preds labels)
                     (feature_ids (data (data_set self))))
              @ [PoolClose, PoolJoin, PoolTerminate],
            sequential_results (fi_func self sampler m meth sc inputs preds labels)
              (feature_ids (data (data_set self))))"
    using p run_tasks_fallback[OF disjI2[OF f], of processes]
    by (simp add: collect_reached[OF assms(1)])
  show ?thesis
    unfolding feature_importance_def c
    by (simp add: case_prod_unfold split: sum.splits)
qed

theorem pool_failure_falls_back_witness:
  "prepare example_self broken_pool example_model None (- 1) 5000 ''output-variance''
     = ([Predict, PoolCreate None], Inr (example_data, Vec [0, 1], None, None))
   \<and> (- 1 :: int) \<noteq> 1
   \<and> snd (pool_attempt broken_pool False
             (fi_func example_self example_sampler example_model ''output-variance'' False
                example_data (Vec [0, 1]) None)
             (feature_ids (data (data_set example_self)))) = Some PoolFailure
   \<and> feature_importance example_self example_sampler broken_pool example_model True None (- 1)
        False 5000 ''output-variance'' False
     = ([Predict, PoolCreate None, PoolMap,
         LogWarn ''Multiprocessing failed, going single process'',
         TaskInProcess ''a'', TaskInProcess ''b'', PoolClose, PoolJoin, PoolTerminate],
        Inr [(''a'', Fin 0), (''b'', Fin 1)])"
proof -
  have hp: "prepare example_self broken_pool example_model None (- 1) 5000 ''output-variance''
     = ([Predict, PoolCreate None], Inr (example_data, Vec [0, 1], None, None))"
    by code_simp
  have hf: "snd (pool_attempt broken_pool False
             (fi_func example_self example_sampler example_model ''output-variance'' False
                example_data (Vec [0, 1]) None)
             (feature_ids (data (data_set example_self)))) = Some PoolFailure"
    by code_simp
  have v: "feature_importance example_self example_sampler broken_pool example_model True None
        (- 1) False 5000 ''output-variance'' False
     = ([Predict, PoolCreate None, PoolMap,
         LogWarn ''Multiprocessing failed, going single process'',
         TaskInProcess ''a'', TaskInProcess ''b'', PoolClose, PoolJoin, PoolTerminate],
        Inr [(''a'', Fin 0), (''b'', Fin 1)])"
    by code_simp
  from pool_failure_falls_back[OF hp _ hf, where asc = True] hp hf v show ?thesis by simp
qed

subsection \<open>The worker count\<close>

text \<open>
  C6, as the claim states it: a worker count of 0 or less uses all the parallelism there
  is, and a worker count of 1 creates no pool at all. With the worker count 1 a pool of
  one process is created (and released, unused); with the worker count 0 the count is
  handed to the pool as it is, and the pool rejects it.
\<close>

theorem worker_count_counterexample:
  "PoolCreate (Some 1)
     \<in> set (fst (feature_importance example_self example_sampler healthy_pool example_model
                   True None 1 False 5000 ''output-variance'' False))
   \<and> snd (feature_importance example_self example_sampler healthy_pool example_model True None
            0 False 5000 ''output-variance'' False)
     = Inl (ValueError ''Number of processes must be at least 1'')"
  by code_simp

text \<open>
  C6, amended: for every call that reaches the dispatch, a negative worker count creates
  the pool without a process count (one worker per processor) and submits the tasks to
  it, and a worker count of exactly 1 forces sequential execution: no task is submitted
  to the pool and the complete task set runs in the calling process.
\<close>

theorem worker_count_resolution:
  assumes "prepare self env m fc n_jobs ns meth = (evs, Inr (inputs, preds, labels, processes))"
  shows "(n_jobs < 0 \<longrightarrow>
            processes = None
          \<and> PoolCreate None
              \<in> set (fst (feature_importance self sampler env m asc fc n_jobs pb ns meth sc))
          \<and> PoolMap
              \<in> set (fst (feature_importance self sampler env m asc fc n_jobs pb ns meth sc)))
       \<and> (n_jobs = 1 \<longrightarrow>
            PoolMap
              \<notin> set (fst (feature_importance self sampler env m asc fc n_jobs pb ns meth sc))
          \<and> collect_importances self sampler env m fc n_jobs pb ns meth sc
            = (evs @ (if pb then [LogWarn ''Progress bars slow down runs by 10-20%''] else [])
                 @ [LogWarn ''Multiprocessing failed, going single process'']
                 @ map TaskInProcess
                     (tasks_attempted (fi_func self sampler m meth sc inputs preds labels)
                        (feature_ids (data (data_set self))))
                 @ [PoolClose, PoolJoin, PoolTerminate],
               sequential_results (fi_func self sampler m meth sc inputs preds labels)
                 (feature_ids (data (data_set self)))))"
proof -
  let ?f = "fi_func self sampler m meth sc inputs preds labels"
  let ?ks = "feature_ids (data (data_set self))"
  note r = prepare_reached[OF assms]
  have neg: "processes = None
          \<and> PoolCreate None
              \<in> set (fst (feature_importance self sampler env m asc fc n_jobs pb ns meth sc))
          \<and> PoolMap
              \<in> set (fst (feature_importance self sampler env m asc fc n_jobs pb ns meth sc))"
    if "n_jobs < 0"
  proof -
    from that r(5) have p: "processes = None" by simp
    have "PoolMap \<in> set (fst (run_tasks env None pb ?f ?ks))"
      by (simp add: run_tasks_def case_prod_unfold)
    with p r(7) show ?thesis
      by (simp add: feature_importance_reached[OF assms] collect_reached[OF assms])
  qed
  have one: "PoolMap
              \<notin> set (fst (feature_importance self sampler env m asc fc n_jobs pb ns meth sc))
          \<and> collect_importances self sampler env m fc n_jobs pb ns meth sc
            = (evs @ (if pb then [LogWarn ''Progress bars slow down runs by 10-20%''] else [])
                 @ [LogWarn ''Multiprocessing failed, going single process'']
                 @ map TaskInProcess (tasks_attempted ?f ?ks)
                 @ [PoolClose, PoolJoin, PoolTerminate],
               sequential_results ?f ?ks)"
    if "n_jobs = 1"
  proof -
    from that r(5) have p: "processes = Some 1" by simp
    have c: "collect_importances self sampler env m fc n_jobs pb ns meth sc
            = (evs @ (if pb then [LogWarn ''Progress bars slow down runs by 10-20%''] else [])
                 @ [LogWarn ''Multiprocessing failed, going single process'']
                 @ map TaskInProcess (tasks_attempted ?f ?ks)
                 @ [PoolClose, PoolJoin, PoolTerminate],
               sequential_results ?f ?ks)"
      using p run_tasks_fallback[OF disjI1[OF p], of env pb ?f ?ks]
      by (simp add: collect_reached[OF assms])
    have "PoolMap \<notin> set (fst (feature_importance self sampler env m asc fc n_jobs pb ns meth sc))"
      unfolding feature_importance_reached[OF assms] c
      using r(7) select_inputs_events(1)[of "data_set self" ns] normalise_events(1)
      by (auto split: sum.splits)
    with c show ?thesis by simp
  qed
  from neg one show ?thesis by blast
qed

theorem worker_count_resolution_witness:
  "prepare example_self healthy_pool example_model None (- 1) 5000 ''output-variance''
     = ([Predict, PoolCreate None], Inr (example_data, Vec [0, 1], None, None))
   \<and> (- 1 :: int) < 0
   \<and> PoolCreate None
        \<in> set (fst (feature_importance example_self example_sampler healthy_pool example_model
                      True None (- 1) False 5000 ''output-variance'' False))
   \<and> PoolMap
        \<in> set (fst (feature_importance example_self example_sampler healthy_pool example_model
                      True None (- 1) False 5000 ''output-variance'' False))
   \<and> prepare example_self healthy_pool example_model None 1 5000 ''output-variance''
     = ([Predict, PoolCreate (Some 1)], Inr (example_data, Vec [0, 1], None, Some 1))
   \<and> PoolMap
        \<notin> set (fst (feature_importance example_self example_sampler healthy_pool example_model
                      True None 1 False 5000 ''output-variance'' False))
   \<and> snd (collect_importances example_self example_sampler healthy_pool example_model None 1
             False 5000 ''output-variance'' False)
     = Inr [[(''a'', Fin 0)], [(''b'', Fin 1)]]"
proof -
  have hn: "prepare example_self healthy_pool example_model None (- 1) 5000 ''output-variance''
     = ([Predict, PoolCreate None], Inr (example_data, Vec [0, 1], None, None))"
    by code_simp
  have ho: "prepare example_self healthy_pool example_model None 1 5000 ''output-variance''
     = ([Predict, PoolCreate (Some 1)], Inr (example_data, Vec [0, 1], None, Some 1))"
    by code_simp
  have v: "snd (collect_importances example_self example_sampler healthy_pool example_model None 1
             False 5000 ''output-variance'' False)
     = Inr [[(''a'', Fin 0)], [(''b'', Fin 1)]]"
    by code_simp
  from worker_count_resolution[OF hn, where sampler = example_sampler and asc = True and pb = False and sc = False]
       worker_count_resolution[OF ho, where sampler = example_sampler and asc = True and pb = False and sc = False]
       hn ho v
  show ?thesis by simp
qed

subsection \<open>The baseline\<close>











subsection \<open>The returned distribution\<close>












































end
